theory Spec2Isabelle
  imports Main
begin

section \<open>Bharat STT API: the request handlers of main.py\<close>

text \<open>
  The service is one Python module. Its handlers are embedded as HOL functions:
  exceptions are values of a sum type, the file system and the calls made to the outside
  (temporary file, model, logger) are an explicit world that every handler returns
  updated, and the outcomes of the outside operations (whether a write fails, what the
  model answers) are fields of a record the handler is given.

  A Python \<open>str\<close> is a \<open>string\<close> whose characters are read as code points below 256.
\<close>

subsection \<open>Python strings\<close>

text \<open>\<open>str.lower()\<close> on code points below 256: the ASCII capitals and the Latin-1
  capitals \<open>0xC0..0xDE\<close> (without the multiplication sign \<open>0xD7\<close>) move up by 32.\<close>

definition upper_table :: "(char \<times> char) list" where
  "upper_table =
     zip ''ABCDEFGHIJKLMNOPQRSTUVWXYZ'' ''abcdefghijklmnopqrstuvwxyz'' @
     zip [CHR 0xC0, CHR 0xC1, CHR 0xC2, CHR 0xC3, CHR 0xC4, CHR 0xC5, CHR 0xC6, CHR 0xC7,
          CHR 0xC8, CHR 0xC9, CHR 0xCA, CHR 0xCB, CHR 0xCC, CHR 0xCD, CHR 0xCE, CHR 0xCF,
          CHR 0xD0, CHR 0xD1, CHR 0xD2, CHR 0xD3, CHR 0xD4, CHR 0xD5, CHR 0xD6,
          CHR 0xD8, CHR 0xD9, CHR 0xDA, CHR 0xDB, CHR 0xDC, CHR 0xDD, CHR 0xDE]
         [CHR 0xE0, CHR 0xE1, CHR 0xE2, CHR 0xE3, CHR 0xE4, CHR 0xE5, CHR 0xE6, CHR 0xE7,
          CHR 0xE8, CHR 0xE9, CHR 0xEA, CHR 0xEB, CHR 0xEC, CHR 0xED, CHR 0xEE, CHR 0xEF,
          CHR 0xF0, CHR 0xF1, CHR 0xF2, CHR 0xF3, CHR 0xF4, CHR 0xF5, CHR 0xF6,
          CHR 0xF8, CHR 0xF9, CHR 0xFA, CHR 0xFB, CHR 0xFC, CHR 0xFD, CHR 0xFE]"

definition lower_char :: "char \<Rightarrow> char" where
  "lower_char c = (case map_of upper_table c of Some l \<Rightarrow> l | None \<Rightarrow> c)"

definition lower :: "string \<Rightarrow> string" where
  "lower s = map lower_char s"

text \<open>\<open>str.isspace\<close> on code points below 256, and \<open>str.strip()\<close> without argument.\<close>

definition isspace :: "char \<Rightarrow> bool" where
  "isspace c \<longleftrightarrow>
     c \<in> set [CHR 0x09, CHR 0x0A, CHR 0x0B, CHR 0x0C, CHR 0x0D,
              CHR 0x1C, CHR 0x1D, CHR 0x1E, CHR 0x1F, CHR 0x20, CHR 0x85, CHR 0xA0]"

definition lstrip :: "string \<Rightarrow> string" where
  "lstrip s = dropWhile isspace s"

definition rstrip :: "string \<Rightarrow> string" where
  "rstrip s = rev (dropWhile isspace (rev s))"

definition strip :: "string \<Rightarrow> string" where
  "strip s = rstrip (lstrip s)"

text \<open>\<open>repr\<close> of a \<open>str\<close>: double quotes when the string has a single quote and no
  double quote, single quotes otherwise; backslash, the chosen quote, newline, carriage
  return and tab are escaped, every other unprintable code point becomes \<open>\xhh\<close>.\<close>

definition hex2 :: "char \<Rightarrow> string" where
  "hex2 c = (let n = (of_char c :: nat) in
     [''0123456789abcdef'' ! (n div 16), ''0123456789abcdef'' ! (n mod 16)])"

definition printable :: "char \<Rightarrow> bool" where
  "printable c \<longleftrightarrow> (let n = (of_char c :: nat) in
     32 \<le> n \<and> \<not> (127 \<le> n \<and> n \<le> 160) \<and> n \<noteq> 173)"

definition repr_char :: "char \<Rightarrow> char \<Rightarrow> string" where
  "repr_char q c =
     (if c = CHR 0x5C then [CHR 0x5C, CHR 0x5C]
      else if c = q then [CHR 0x5C, q]
      else if c = CHR 0x0A then [CHR 0x5C, CHR ''n'']
      else if c = CHR 0x0D then [CHR 0x5C, CHR ''r'']
      else if c = CHR 0x09 then [CHR 0x5C, CHR ''t'']
      else if printable c then [c]
      else [CHR 0x5C, CHR ''x''] @ hex2 c)"

definition repr_str :: "string \<Rightarrow> string" where
  "repr_str s =
     (let q = (if CHR 0x27 \<in> set s \<and> CHR 0x22 \<notin> set s then CHR 0x22 else CHR 0x27)
      in [q] @ concat (map (repr_char q) s) @ [q])"

text \<open>\<open>str\<close> of a list of strings, as an f-string renders it.\<close>

fun join :: "string \<Rightarrow> string list \<Rightarrow> string" where
  "join sep [] = []"
| "join sep [x] = x"
| "join sep (x # y # ys) = x @ sep @ join sep (y # ys)"

definition str_list :: "string list \<Rightarrow> string" where
  "str_list xs = ''['' @ join '', '' (map repr_str xs) @ '']''"

subsection \<open>\<open>os.path.splitext\<close> (posixpath)\<close>

text \<open>\<open>str.rfind\<close> of one character: the highest index, or \<open>-1\<close>.\<close>

fun rfind :: "string \<Rightarrow> char \<Rightarrow> int" where
  "rfind [] c = - 1"
| "rfind (x # xs) c =
     (let r = rfind xs c in if 0 \<le> r then r + 1 else if x = c then 0 else - 1)"

text \<open>The loop of \<open>genericpath._splitext\<close> that skips leading dots of the last component:
  \<open>True\<close> when it reaches a character that is not a dot before \<open>dotIndex\<close>, which is where
  the source returns the split; \<open>False\<close> when the loop runs out.\<close>

function splitext_loop :: "string \<Rightarrow> int \<Rightarrow> int \<Rightarrow> bool" where
  "splitext_loop p filenameIndex dotIndex =
     (if filenameIndex < dotIndex then
        (if take 1 (drop (nat filenameIndex) p) \<noteq> ''.'' then True
         else splitext_loop p (filenameIndex + 1) dotIndex)
      else False)"
  by pat_completeness auto
termination
  by (relation "measure (\<lambda>(p, i, d). nat (d - i))") auto

declare splitext_loop.simps [simp del]

definition splitext :: "string \<Rightarrow> string \<times> string" where
  "splitext p =
     (let sepIndex = rfind p CHR ''/'';
          dotIndex = rfind p CHR ''.''
      in if dotIndex > sepIndex \<and> splitext_loop p (sepIndex + 1) dotIndex
         then (take (nat dotIndex) p, drop (nat dotIndex) p)
         else (p, []))"

subsection \<open>Values, exceptions and the world\<close>

datatype json = JBool bool | JStr string

text \<open>\<open>JSONResponse(content)\<close>: the status code defaults to 200.\<close>

record JSONResponse =
  status_code :: nat
  content :: "(string \<times> json) list"

text \<open>What the handler can raise. An exception raised inside the \<open>try\<close> statement (by
  the file system, the upload, the model or a dictionary lookup) is caught there; it is
  represented by its message \<open>str(e)\<close>, a \<open>string\<close>.\<close>

datatype exn =
    HTTPException nat string
  | UnboundLocalError string

datatype level = INFO | WARNING | ERROR

datatype event =
    NamedTemporaryFile string
  | Write string
  | Transcribe string string
  | Remove string
  | Log level string

text \<open>The world: the files on storage (path to bytes) and the calls made so far, oldest
  first.\<close>

record world =
  files :: "string \<rightharpoonup> string"
  calls :: "event list"

definition emit :: "event \<Rightarrow> world \<Rightarrow> world" where
  "emit e w = w\<lparr>calls := calls w @ [e]\<rparr>"

text \<open>The outcomes of the operating system's operations: \<open>Inl m\<close> and \<open>Some m\<close> are a
  raised exception with message \<open>m\<close>.\<close>

record host =
  new_temp :: "string \<Rightarrow> string + string"
  file_write :: "string \<Rightarrow> string \<Rightarrow> string option"
  file_close :: "string \<Rightarrow> string option"
  os_remove :: "string \<Rightarrow> string option"

text \<open>The upload: its file name and what \<open>await audio.read()\<close> gives.\<close>

record UploadFile =
  filename :: string
  read :: "string + string"

text \<open>The loaded model is its \<open>transcribe\<close> function, from the path and the language to
  the \<open>text\<close> of the result or to the message of the exception it raises. The global
  \<open>model\<close> is \<open>None\<close> when loading failed at start-up.\<close>

type_synonym whisper = "string \<Rightarrow> string \<Rightarrow> string + string"

subsection \<open>The language registry\<close>

definition SUPPORTED_LANGUAGES :: "(string \<times> string) list" where
  "SUPPORTED_LANGUAGES =
     [(''hi'', ''Hindi''), (''en'', ''English''), (''ta'', ''Tamil''), (''te'', ''Telugu''),
      (''mr'', ''Marathi''), (''bn'', ''Bengali''), (''gu'', ''Gujarati''),
      (''kn'', ''Kannada''), (''ml'', ''Malayalam''), (''pa'', ''Punjabi'')]"

definition keys :: "(string \<times> string) list \<Rightarrow> string list" where
  "keys d = map fst d"

definition allowed_formats :: "string list" where
  "allowed_formats = [''.m4a'', ''.wav'', ''.mp3'', ''.ogg'', ''.flac'']"

subsection \<open>GET /health\<close>

definition health_check :: "whisper option \<Rightarrow> (string \<times> json) list" where
  "health_check model =
     [(''ok'', JBool True),
      (''status'', JStr ''running''),
      (''model_loaded'', JBool (model \<noteq> None)),
      (''model_type'', JStr ''whisper-base'')]"

subsection \<open>POST /api/stt\<close>

text \<open>The local variables the \<open>finally\<close> clause reads. \<open>temp_file\<close> is Python's \<open>None\<close>
  until the \<open>with\<close> statement binds it to the file object (here: its name);
  \<open>temp_path\<close> is \<open>None\<close> while the local has no value yet.\<close>

record locals =
  temp_file :: "string option"
  temp_path :: "string option"

text \<open>Leaving the \<open>with\<close> block closes the file; an exception of the close replaces the
  one the block was left with.\<close>

definition with_exit :: "host \<Rightarrow> string \<Rightarrow> string + 'a \<Rightarrow> string + 'a" where
  "with_exit h p r = (case file_close h p of Some e \<Rightarrow> Inl e | None \<Rightarrow> r)"

text \<open>The body of the \<open>try\<close> statement (lines 119 to 147). The result is the response
  returned or the message of the exception raised, with the locals and the world at that
  point. Log messages are given without the pictograph that starts some of them.\<close>

definition try_body ::
  "whisper \<Rightarrow> host \<Rightarrow> UploadFile \<Rightarrow> string \<Rightarrow> string \<Rightarrow> world
     \<Rightarrow> (string + JSONResponse) \<times> locals \<times> world" where
  "try_body model h audio language file_ext w =
     (let w1 = emit (NamedTemporaryFile file_ext) w in
      case new_temp h file_ext of
        Inl e \<Rightarrow> (Inl e, \<lparr>temp_file = None, temp_path = None\<rparr>, w1)
      | Inr p \<Rightarrow>
          let w2 = w1\<lparr>files := (files w1)(p \<mapsto> [])\<rparr> in
          (case read audio of
             Inl e \<Rightarrow> (with_exit h p (Inl e), \<lparr>temp_file = Some p, temp_path = None\<rparr>, w2)
           | Inr bytes \<Rightarrow>
               let w3 = emit (Write p) w2 in
               (case file_write h p bytes of
                  Some e \<Rightarrow>
                    (with_exit h p (Inl e), \<lparr>temp_file = Some p, temp_path = None\<rparr>, w3)
                | None \<Rightarrow>
                    let w4 = w3\<lparr>files := (files w3)(p \<mapsto> bytes)\<rparr>;
                        loc = \<lparr>temp_file = Some p, temp_path = Some p\<rparr>
                    in
                    (case file_close h p of
                       Some e \<Rightarrow> (Inl e, loc, w4)
                     | None \<Rightarrow>
                         let w5 = emit (Log INFO (''Processing audio: '' @ filename audio @
                                                  '' | Language: '' @ language)) w4;
                             w6 = emit (Transcribe p language) w5
                         in
                         (case model p language of
                            Inl e \<Rightarrow> (Inl e, loc, w6)
                          | Inr text \<Rightarrow>
                              let transcribed_text = strip text;
                                  w7 = emit (Log INFO (''Transcription successful: '' @
                                         take 50 transcribed_text @ ''...'')) w6
                              in
                              (case map_of SUPPORTED_LANGUAGES language of
                                 None \<Rightarrow> (Inl (repr_str language), loc, w7)
                               | Some name \<Rightarrow>
                                   (Inr \<lparr>status_code = 200,
                                         content =
                                           [(''success'', JBool True),
                                            (''text'', JStr transcribed_text),
                                            (''language'', JStr language),
                                            (''language_name'', JStr name),
                                            (''filename'', JStr (filename audio))]\<rparr>,
                                    loc, w7)))))))"

text \<open>The \<open>except Exception as e\<close> clause: log, then raise the 500.\<close>

definition except_clause ::
  "(string + JSONResponse) \<times> world \<Rightarrow> (exn + JSONResponse) \<times> world" where
  "except_clause rw =
     (case rw of
        (Inl e, w) \<Rightarrow>
          (Inl (HTTPException 500 (''Transcription failed: '' @ e)),
           emit (Log ERROR (''Transcription error: '' @ e)) w)
      | (Inr resp, w) \<Rightarrow> (Inr resp, w))"

text \<open>The \<open>finally\<close> clause. \<open>temp_file and os.path.exists(temp_path)\<close> stops at a
  \<open>temp_file\<close> that is \<open>None\<close>; a file object is true, and then \<open>temp_path\<close> is read, which
  raises when the local has no value. The result is the exception the clause itself
  raises, if any.\<close>

definition finally_clause :: "host \<Rightarrow> locals \<Rightarrow> world \<Rightarrow> exn option \<times> world" where
  "finally_clause h loc w =
     (case temp_file loc of
        None \<Rightarrow> (None, w)
      | Some f \<Rightarrow>
          (case temp_path loc of
             None \<Rightarrow> (Some (UnboundLocalError ''temp_path''), w)
           | Some p \<Rightarrow>
               if files w p \<noteq> None then
                 (let w1 = emit (Remove p) w in
                  case os_remove h p of
                    Some e \<Rightarrow> (None, emit (Log WARNING (''Cleanup warning: '' @ e)) w1)
                  | None \<Rightarrow>
                      (None, emit (Log INFO ''Temporary file deleted'')
                               (w1\<lparr>files := (files w1)(p := None)\<rparr>)))
               else (None, w)))"

text \<open>The handler. An exception raised by the \<open>finally\<close> clause replaces the pending
  result of the \<open>try\<close> statement.\<close>

definition speech_to_text ::
  "whisper option \<Rightarrow> host \<Rightarrow> UploadFile \<Rightarrow> string \<Rightarrow> world \<Rightarrow> (exn + JSONResponse) \<times> world"
  where
  "speech_to_text model h audio language w =
     (case model of
        None \<Rightarrow> (Inl (HTTPException 503 ''Model not loaded. Server starting...''), w)
      | Some m \<Rightarrow>
          if language \<notin> set (keys SUPPORTED_LANGUAGES) then
            (Inl (HTTPException 400
                    (''Language '' @ [CHR 0x27] @ language @ [CHR 0x27] @
                     '' not supported. Use: '' @ str_list (keys SUPPORTED_LANGUAGES))), w)
          else
            let file_ext = lower (snd (splitext (filename audio))) in
            if file_ext \<notin> set allowed_formats then
              (Inl (HTTPException 400
                      (''Invalid format. Allowed: '' @ str_list allowed_formats)), w)
            else
              (case try_body m h audio language file_ext w of
                 (r, loc, w1) \<Rightarrow>
                   (case except_clause (r, w1) of
                      (r', w2) \<Rightarrow>
                        (case finally_clause h loc w2 of
                           (Some e, w3) \<Rightarrow> (Inl e, w3)
                         | (None, w3) \<Rightarrow> (r', w3)))))"

text \<open>The form field \<open>language: str = Form("hi")\<close>: the default stands in for a field
  that the request does not have, and for a field whose value is the empty string, which
  the framework treats as a field without value.\<close>

definition Form :: "string \<Rightarrow> string option \<Rightarrow> string" where
  "Form dflt field =
     (case field of None \<Rightarrow> dflt | Some v \<Rightarrow> if v = [] then dflt else v)"

definition post_api_stt ::
  "whisper option \<Rightarrow> host \<Rightarrow> UploadFile \<Rightarrow> string option \<Rightarrow> world
     \<Rightarrow> (exn + JSONResponse) \<times> world" where
  "post_api_stt model h audio language_field w =
     speech_to_text model h audio (Form ''hi'' language_field) w"

text \<open>What the client gets. The framework turns a returned response and a raised
  \<open>HTTPException\<close> into a JSON body with the status code, the latter as
  \<open>{"detail": ...}\<close>; any other exception leaves the handler unhandled.\<close>

datatype reply = JSON nat "(string \<times> json) list" | Unhandled exn

fun respond :: "exn + JSONResponse \<Rightarrow> reply" where
  "respond (Inr r) = JSON (status_code r) (content r)"
| "respond (Inl (HTTPException s d)) = JSON s [(''detail'', JStr d)]"
| "respond (Inl e) = Unhandled e"

subsection \<open>Observations and a sample request\<close>

text \<open>The paths handed to \<open>os.remove\<close> and the calls of \<open>model.transcribe\<close>, oldest
  first.\<close>

definition removals :: "world \<Rightarrow> string list" where
  "removals w = concat (map (\<lambda>e. case e of Remove q \<Rightarrow> [q] | _ \<Rightarrow> []) (calls w))"

definition transcriptions :: "world \<Rightarrow> (string \<times> string) list" where
  "transcriptions w =
     concat (map (\<lambda>e. case e of Transcribe p l \<Rightarrow> [(p, l)] | _ \<Rightarrow> []) (calls w))"

text \<open>A host on which every operation succeeds, an empty storage, an upload and a model
  that hears two words with blanks around them.\<close>

definition demo_host :: host where
  "demo_host =
     \<lparr>new_temp = (\<lambda>suffix. Inr (''/tmp/tmpab12cd'' @ suffix)),
      file_write = (\<lambda>p b. None),
      file_close = (\<lambda>p. None),
      os_remove = (\<lambda>p. None)\<rparr>"

definition demo_world :: world where
  "demo_world = \<lparr>files = Map.empty, calls = []\<rparr>"

definition demo_upload :: UploadFile where
  "demo_upload = \<lparr>filename = ''clip.WAV'', read = Inr ''RIFF''\<rparr>"

definition demo_model :: whisper where
  "demo_model = (\<lambda>p l. Inr ''  namaste duniya  '')"

text \<open>The same host with a removal that is refused, with a full disk, and a model that
  cannot decode the audio.\<close>

definition locked_host :: host where
  "locked_host = demo_host\<lparr>os_remove := (\<lambda>p. Some ''[Errno 13] Permission denied'')\<rparr>"

definition full_disk_host :: host where
  "full_disk_host =
     demo_host\<lparr>file_write := (\<lambda>p b. Some ''[Errno 28] No space left on device'')\<rparr>"

definition deaf_model :: whisper where
  "deaf_model = (\<lambda>p l. Inl ''Failed to load audio'')"

section \<open>Properties\<close>

subsection \<open>Auxiliary facts\<close>

lemma str_list_allowed_formats:
  "str_list allowed_formats = ''['.m4a', '.wav', '.mp3', '.ogg', '.flac']''"
  by (simp add: str_list_def allowed_formats_def repr_str_def repr_char_def printable_def
        Let_def)

lemma str_list_keys:
  "str_list (keys SUPPORTED_LANGUAGES) =
     ''['hi', 'en', 'ta', 'te', 'mr', 'bn', 'gu', 'kn', 'ml', 'pa']''"
  by (simp add: str_list_def keys_def SUPPORTED_LANGUAGES_def repr_str_def repr_char_def
        printable_def Let_def)

lemma removals_emit [simp]:
  "removals (emit e w) = removals w @ (case e of Remove q \<Rightarrow> [q] | _ \<Rightarrow> [])"
  by (simp add: removals_def emit_def)

lemma removals_files_update [simp]: "removals (w\<lparr>files := f\<rparr>) = removals w"
  by (simp add: removals_def)

lemma transcriptions_emit [simp]:
  "transcriptions (emit e w) =
     transcriptions w @ (case e of Transcribe p l \<Rightarrow> [(p, l)] | _ \<Rightarrow> [])"
  by (simp add: transcriptions_def emit_def)

lemma transcriptions_files_update [simp]:
  "transcriptions (w\<lparr>files := f\<rparr>) = transcriptions w"
  by (simp add: transcriptions_def)

lemma files_emit [simp]: "files (emit e w) = files w"
  by (simp add: emit_def)

lemma calls_emit [simp]: "calls (emit e w) = calls w @ [e]"
  by (simp add: emit_def)

lemmas handler_defs =
  speech_to_text_def try_body_def except_clause_def finally_clause_def with_exit_def Let_def

lemma registry_name:
  assumes "language \<in> set (keys SUPPORTED_LANGUAGES)"
  shows "\<exists>name. map_of SUPPORTED_LANGUAGES language = Some name"
  using assms
  by (cases "map_of SUPPORTED_LANGUAGES language") (auto simp: keys_def map_of_eq_None_iff)

text \<open>The value returned on the path where nothing fails.\<close>

lemma success_value:
  assumes "file_ext = lower (snd (splitext (filename audio)))"
    and "language \<in> set (keys SUPPORTED_LANGUAGES)"
    and "file_ext \<in> set allowed_formats"
    and "new_temp h file_ext = Inr p"
    and "read audio = Inr bytes"
    and "file_write h p bytes = None"
    and "file_close h p = None"
    and "m p language = Inr text"
    and "map_of SUPPORTED_LANGUAGES language = Some name"
  shows "fst (speech_to_text (Some m) h audio language w) =
     Inr \<lparr>status_code = 200,
          content = [(''success'', JBool True), (''text'', JStr (strip text)),
                     (''language'', JStr language), (''language_name'', JStr name),
                     (''filename'', JStr (filename audio))]\<rparr>"
  using assms
  by (auto simp: handler_defs split: sum.splits option.splits if_splits prod.splits)

text \<open>An empty \<open>language\<close> field is handled as an absent one.\<close>

lemma empty_language_is_absent:
  "post_api_stt model h audio (Some []) w = post_api_stt model h audio None w"
  by (simp add: post_api_stt_def Form_def)

text \<open>The model is called at most once, whatever the request.\<close>

lemma transcribe_at_most_once:
  "length (transcriptions (snd (speech_to_text model h audio language w)))
     \<le> length (transcriptions w) + 1"
  by (auto simp: handler_defs split: sum.splits option.splits if_splits prod.splits)

text \<open>An exception leaves the handler unhandled in one situation only: the temporary
  file was created and reading the upload or writing its bytes failed.\<close>

lemma unhandled_iff:
  "(\<exists>e. respond (fst (speech_to_text model h audio language w)) = Unhandled e) \<longleftrightarrow>
   (\<exists>m p. model = Some m
      \<and> language \<in> set (keys SUPPORTED_LANGUAGES)
      \<and> lower (snd (splitext (filename audio))) \<in> set allowed_formats
      \<and> new_temp h (lower (snd (splitext (filename audio)))) = Inr p
      \<and> (case read audio of Inl e \<Rightarrow> True | Inr bytes \<Rightarrow> file_write h p bytes \<noteq> None))"
  by (cases "read audio"; cases "new_temp h (lower (snd (splitext (filename audio))))";
      cases model)
     (auto simp: handler_defs split: sum.splits option.splits if_splits prod.splits)

text \<open>Lower-casing leaves the dot and the slash alone, so it commutes with
  \<open>splitext\<close>.\<close>

lemma lower_char_eq_iff:
  assumes "c \<notin> snd ` set upper_table" "c \<notin> fst ` set upper_table"
  shows "lower_char x = c \<longleftrightarrow> x = c"
proof
  assume low: "lower_char x = c"
  show "x = c"
  proof (cases "map_of upper_table x")
    case None
    with low show ?thesis by (simp add: lower_char_def)
  next
    case (Some l)
    then have "(x, l) \<in> set upper_table" by (rule map_of_SomeD)
    then have "l \<in> snd ` set upper_table" by force
    moreover from Some low have "l = c" by (simp add: lower_char_def)
    ultimately show ?thesis using assms by simp
  qed
next
  assume same: "x = c"
  with assms(2) have "map_of upper_table x = None"
    by (simp add: map_of_eq_None_iff)
  with same show "lower_char x = c" by (simp add: lower_char_def)
qed

lemma lower_char_dot [simp]: "lower_char x = CHR ''.'' \<longleftrightarrow> x = CHR ''.''"
  by (rule lower_char_eq_iff) (simp_all add: upper_table_def)

lemma lower_char_slash [simp]: "lower_char x = CHR ''/'' \<longleftrightarrow> x = CHR ''/''"
  by (rule lower_char_eq_iff) (simp_all add: upper_table_def)

lemma rfind_lower:
  assumes "\<And>x. lower_char x = c \<longleftrightarrow> x = c"
  shows "rfind (lower p) c = rfind p c"
  using assms by (induction p) (simp_all add: lower_def Let_def)

lemma splitext_loop_lower:
  "splitext_loop (lower p) i d = splitext_loop p i d"
proof (induction p i d rule: splitext_loop.induct)
  case (1 p i d)
  have eq: "take 1 (drop (nat i) (lower p)) = ''.'' \<longleftrightarrow> take 1 (drop (nat i) p) = ''.''"
    by (cases "drop (nat i) p") (simp_all add: lower_def drop_map)
  show ?case
  proof (cases "i < d")
    case False
    then show ?thesis by (simp add: splitext_loop.simps [of _ i d])
  next
    case True
    show ?thesis
    proof (cases "take 1 (drop (nat i) p) = ''.''")
      case dot: True
      with True eq 1 show ?thesis
        by (simp add: splitext_loop.simps [of _ i d])
    next
      case False
      with True eq show ?thesis by (simp add: splitext_loop.simps [of _ i d])
    qed
  qed
qed

lemma splitext_lower: "snd (splitext (lower p)) = lower (snd (splitext p))"
  by (simp add: splitext_def Let_def rfind_lower splitext_loop_lower)
     (simp add: lower_def drop_map)

text \<open>\<open>strip\<close> cuts a run of whitespace from each end and stops at the first character
  that is not whitespace.\<close>

lemma dropWhile_split:
  "\<exists>pre. xs = pre @ dropWhile P xs \<and> (\<forall>c \<in> set pre. P c)"
proof
  show "xs = takeWhile P xs @ dropWhile P xs \<and> (\<forall>c \<in> set (takeWhile P xs). P c)"
    by (auto dest: set_takeWhileD)
qed

lemma rstrip_split:
  "\<exists>suf. s = rstrip s @ suf \<and> (\<forall>c \<in> set suf. isspace c)"
proof -
  obtain fus where fus: "rev s = fus @ dropWhile isspace (rev s)" "\<forall>c \<in> set fus. isspace c"
    using dropWhile_split [of "rev s" isspace] by blast
  from fus(1) have "rev (rev s) = rev (fus @ dropWhile isspace (rev s))"
    by simp
  then have "s = rstrip s @ rev fus"
    by (simp add: rstrip_def)
  with fus(2) show ?thesis by auto
qed

lemma strip_sandwich:
  "\<exists>pre suf. s = pre @ strip s @ suf \<and> (\<forall>c \<in> set pre. isspace c) \<and>
     (\<forall>c \<in> set suf. isspace c)"
proof -
  obtain pre where pre: "s = pre @ lstrip s" "\<forall>c \<in> set pre. isspace c"
    unfolding lstrip_def using dropWhile_split [of s isspace] by blast
  obtain suf where suf: "lstrip s = strip s @ suf" "\<forall>c \<in> set suf. isspace c"
    unfolding strip_def using rstrip_split [of "lstrip s"] by blast
  from pre suf have "s = pre @ strip s @ suf" by simp
  with pre(2) suf(2) show ?thesis by blast
qed

lemma strip_ends:
  assumes "strip s \<noteq> []"
  shows "\<not> isspace (hd (strip s)) \<and> \<not> isspace (last (strip s))"
proof -
  let ?l = "lstrip s"
  have ne: "dropWhile isspace (rev ?l) \<noteq> []"
    using assms by (simp add: strip_def rstrip_def)
  then have "\<not> isspace (hd (dropWhile isspace (rev ?l)))"
    by (rule hd_dropWhile)
  moreover have "last (strip s) = hd (dropWhile isspace (rev ?l))"
    using ne by (simp add: strip_def rstrip_def last_rev)
  ultimately have L: "\<not> isspace (last (strip s))" by simp
  obtain suf where suf: "?l = strip s @ suf"
    unfolding strip_def using rstrip_split [of ?l] by blast
  with assms have "hd ?l = hd (strip s)"
    by (metis hd_append2)
  moreover have "?l \<noteq> []" using suf assms by auto
  then have "\<not> isspace (hd ?l)"
    unfolding lstrip_def by (rule hd_dropWhile)
  ultimately show ?thesis using L by simp
qed

text \<open>The sample request passes both validations and is staged at one path.\<close>

lemma demo_ext: "''.wav'' = lower (snd (splitext (filename demo_upload)))"
  by code_simp

lemma demo_lang: "''hi'' \<in> set (keys SUPPORTED_LANGUAGES)"
  by code_simp

lemma demo_fmt: "''.wav'' \<in> set allowed_formats"
  by code_simp

lemma demo_read: "read demo_upload = Inr ''RIFF''"
  by (simp add: demo_upload_def)

subsection \<open>Cleanup of the temporary file\<close>

text \<open>
  C1. When staging succeeded (the temporary file was created at \<open>p\<close>, the upload was read
  and its bytes were written to the file), the handler hands \<open>p\<close> to \<open>os.remove\<close> exactly
  once before it ends, whichever way it ends: with the response, with a failure of the
  model, or with another failure after the write (here the close of the file). When the
  removal succeeds the file is gone and this is logged; when the removal is refused the
  file stays, the handler only logs the warning, and what it returns is the same as for
  any other outcome of the removal: a response or the 500 of the \<open>except\<close> clause.
\<close>

theorem temp_file_released_once:
  assumes ext: "file_ext = lower (snd (splitext (filename audio)))"
    and lang: "language \<in> set (keys SUPPORTED_LANGUAGES)"
    and fmt: "file_ext \<in> set allowed_formats"
    and created: "new_temp h file_ext = Inr p"
    and got: "read audio = Inr bytes"
    and written: "file_write h p bytes = None"
  shows "case speech_to_text (Some m) h audio language w of
     (r, w') \<Rightarrow>
        removals w' = removals w @ [p]
      \<and> files w' p = (case os_remove h p of None \<Rightarrow> None | Some e \<Rightarrow> Some bytes)
      \<and> last (calls w') =
          (case os_remove h p of
             None \<Rightarrow> Log INFO ''Temporary file deleted''
           | Some e \<Rightarrow> Log WARNING (''Cleanup warning: '' @ e))
      \<and> (\<forall>rm. fst (speech_to_text (Some m) (h\<lparr>os_remove := rm\<rparr>) audio language w) = r)
      \<and> ((\<exists>resp. r = Inr resp) \<or> (\<exists>d. r = Inl (HTTPException 500 d)))"
  using assms
  by (auto simp: handler_defs split: sum.splits option.splits if_splits prod.splits)

theorem temp_file_released_once_witness:
  "''.wav'' = lower (snd (splitext (filename demo_upload)))
   \<and> ''hi'' \<in> set (keys SUPPORTED_LANGUAGES)
   \<and> ''.wav'' \<in> set allowed_formats
   \<and> new_temp locked_host ''.wav'' = Inr ''/tmp/tmpab12cd.wav''
   \<and> read demo_upload = Inr ''RIFF''
   \<and> file_write locked_host ''/tmp/tmpab12cd.wav'' ''RIFF'' = None
   \<and> (case speech_to_text (Some demo_model) locked_host demo_upload ''hi'' demo_world of
        (r, w') \<Rightarrow>
          removals w' = [''/tmp/tmpab12cd.wav'']
        \<and> files w' ''/tmp/tmpab12cd.wav'' = Some ''RIFF''
        \<and> last (calls w') = Log WARNING ''Cleanup warning: [Errno 13] Permission denied''
        \<and> fst (speech_to_text (Some demo_model) demo_host demo_upload ''hi'' demo_world) = r)"
proof -
  have c: "new_temp locked_host ''.wav'' = Inr ''/tmp/tmpab12cd.wav''"
    by (simp add: locked_host_def demo_host_def)
  have wr: "file_write locked_host ''/tmp/tmpab12cd.wav'' ''RIFF'' = None"
    by (simp add: locked_host_def demo_host_def)
  have rm: "os_remove locked_host ''/tmp/tmpab12cd.wav'' = Some ''[Errno 13] Permission denied''"
    by (simp add: locked_host_def demo_host_def)
  have rs: "removals demo_world = []"
    by (simp add: removals_def demo_world_def)
  have restore: "locked_host\<lparr>os_remove := os_remove demo_host\<rparr> = demo_host"
    by (simp add: locked_host_def)
  from temp_file_released_once [where m = demo_model and w = demo_world,
      OF demo_ext demo_lang demo_fmt c demo_read wr]
  have "case speech_to_text (Some demo_model) locked_host demo_upload ''hi'' demo_world of
        (r, w') \<Rightarrow>
          removals w' = [''/tmp/tmpab12cd.wav'']
        \<and> files w' ''/tmp/tmpab12cd.wav'' = Some ''RIFF''
        \<and> last (calls w') = Log WARNING ''Cleanup warning: [Errno 13] Permission denied''
        \<and> fst (speech_to_text (Some demo_model) demo_host demo_upload ''hi'' demo_world) = r"
    by (auto simp: rm rs split: prod.splits dest: spec [of _ "os_remove demo_host"] simp: restore)
  with demo_ext demo_lang demo_fmt c demo_read wr show ?thesis by blast
qed

subsection \<open>Errors at the boundary of the handler\<close>

text \<open>
  C2. The claim is that every error of the handling, a staging failure among them, ends
  as a JSON error body with status 400, 500 or 503, and that no exception leaves the
  handler unhandled. With the model loaded, the language \<open>hi\<close> and the upload
  \<open>clip.WAV\<close>, let the temporary file be created and the write to it fail (the disk is
  full). The \<open>except\<close> clause raises its 500; the \<open>finally\<close> clause then finds
  \<open>temp_file\<close> bound, reads \<open>temp_path\<close>, which has no value yet, and its
  \<open>UnboundLocalError\<close> replaces the 500 and leaves the handler unhandled. The file that
  was created stays on storage, and \<open>os.remove\<close> is never called.
\<close>

theorem staging_write_failure_escapes:
  "case speech_to_text (Some demo_model) full_disk_host demo_upload ''hi'' demo_world of
     (r, w') \<Rightarrow>
        respond r = Unhandled (UnboundLocalError ''temp_path'')
      \<and> files w' ''/tmp/tmpab12cd.wav'' \<noteq> None
      \<and> removals w' = []"
  by code_simp

subsection \<open>Validation\<close>

text \<open>
  C3. With the model loaded, a language code that is not a key of the registry is
  answered by a 400 whose detail names the code and lists the ten supported codes. The
  world is returned as it was: no temporary file is created and the model is not
  called.
\<close>

theorem unsupported_language_400:
  assumes "language \<notin> set (keys SUPPORTED_LANGUAGES)"
  shows "speech_to_text (Some m) h audio language w =
     (Inl (HTTPException 400
        (''Language '' @ [CHR 0x27] @ language @ [CHR 0x27] @ '' not supported. Use: '' @
         ''['hi', 'en', 'ta', 'te', 'mr', 'bn', 'gu', 'kn', 'ml', 'pa']'')), w)
     \<and> length (keys SUPPORTED_LANGUAGES) = 10"
  using assms
  by (simp add: speech_to_text_def str_list_keys del: append.simps)
     (simp add: keys_def SUPPORTED_LANGUAGES_def)

theorem unsupported_language_400_witness:
  "''xx'' \<notin> set (keys SUPPORTED_LANGUAGES)
   \<and> speech_to_text (Some demo_model) demo_host demo_upload ''xx'' demo_world =
     (Inl (HTTPException 400
        ''Language 'xx' not supported. Use: ['hi', 'en', 'ta', 'te', 'mr', 'bn', 'gu', 'kn', 'ml', 'pa']''),
      demo_world)"
proof -
  have x: "''xx'' \<notin> set (keys SUPPORTED_LANGUAGES)" by code_simp
  from unsupported_language_400 [where m = demo_model and h = demo_host
      and audio = demo_upload and w = demo_world, OF x] x
  show ?thesis by simp
qed

text \<open>
  C4. With the model loaded and a supported language, the handler raises the 400 of the
  format validation exactly when the extension of the file name (the second component
  of \<open>os.path.splitext\<close>), lower-cased, is not one of the five allowed formats. The 400
  has the detail that lists the allowed formats and the world is returned as it was, so
  nothing has been staged; with an allowed extension the handler raises no 400 at all.
  The case of the letters plays no part in either direction: the decision for a file
  name is the decision for any name that differs from it only in the case of its
  letters, so \<open>clip.WAV\<close> is accepted as \<open>clip.wav\<close> is and \<open>Notes.TXT\<close> is rejected as
  \<open>notes.txt\<close> is.
\<close>

theorem bad_extension_400:
  assumes lang: "language \<in> set (keys SUPPORTED_LANGUAGES)"
    and same: "lower (filename audio) = lower name"
  shows "(speech_to_text (Some m) h audio language w =
            (Inl (HTTPException 400
               ''Invalid format. Allowed: ['.m4a', '.wav', '.mp3', '.ogg', '.flac']''), w))
           = (lower (snd (splitext name)) \<notin> set allowed_formats)
     \<and> (\<exists>d. fst (speech_to_text (Some m) h audio language w) = Inl (HTTPException 400 d))
           = (lower (snd (splitext name)) \<notin> set allowed_formats)"
proof -
  have "lower (snd (splitext (filename audio))) = snd (splitext (lower (filename audio)))"
    by (simp add: splitext_lower)
  also have "\<dots> = lower (snd (splitext name))"
    by (simp add: same splitext_lower)
  finally have ext: "lower (snd (splitext (filename audio))) = lower (snd (splitext name))" .
  show ?thesis
  proof (cases "lower (snd (splitext name)) \<in> set allowed_formats")
    case False
    with lang ext show ?thesis
      by (simp add: speech_to_text_def str_list_allowed_formats)
  next
    case True
    with lang ext
    have no400: "\<not> (\<exists>d. fst (speech_to_text (Some m) h audio language w) =
        Inl (HTTPException 400 d))"
      by (cases "read audio";
          cases "new_temp h (lower (snd (splitext (filename audio))))")
         (auto simp: handler_defs split: sum.splits option.splits if_splits prod.splits)
    then have "speech_to_text (Some m) h audio language w \<noteq>
        (Inl (HTTPException 400
           ''Invalid format. Allowed: ['.m4a', '.wav', '.mp3', '.ogg', '.flac']''), w)"
      by (metis fst_conv)
    with no400 True show ?thesis by simp
  qed
qed

theorem bad_extension_400_witness:
  "''hi'' \<in> set (keys SUPPORTED_LANGUAGES)
   \<and> lower (filename (demo_upload\<lparr>filename := ''Notes.TXT''\<rparr>)) = lower ''notes.txt''
   \<and> lower (snd (splitext ''notes.txt'')) \<notin> set allowed_formats
   \<and> speech_to_text (Some demo_model) demo_host (demo_upload\<lparr>filename := ''Notes.TXT''\<rparr>)
        ''hi'' demo_world =
     (Inl (HTTPException 400
        ''Invalid format. Allowed: ['.m4a', '.wav', '.mp3', '.ogg', '.flac']''), demo_world)
   \<and> lower (filename demo_upload) = lower ''clip.wav''
   \<and> lower (snd (splitext ''clip.wav'')) \<in> set allowed_formats
   \<and> snd (splitext (filename demo_upload)) \<notin> set allowed_formats
   \<and> \<not> (\<exists>d. fst (speech_to_text (Some demo_model) demo_host demo_upload ''hi'' demo_world) =
          Inl (HTTPException 400 d))"
proof -
  have e: "lower (snd (splitext ''notes.txt'')) \<notin> set allowed_formats" by code_simp
  have s: "lower (filename (demo_upload\<lparr>filename := ''Notes.TXT''\<rparr>)) = lower ''notes.txt''"
    by code_simp
  have e': "lower (snd (splitext ''clip.wav'')) \<in> set allowed_formats" by code_simp
  have s': "lower (filename demo_upload) = lower ''clip.wav''" by code_simp
  have raw: "snd (splitext (filename demo_upload)) \<notin> set allowed_formats" by code_simp
  from bad_extension_400 [where m = demo_model and h = demo_host and w = demo_world,
      OF demo_lang s]
    bad_extension_400 [where m = demo_model and h = demo_host and w = demo_world,
      OF demo_lang s']
    e s e' s' raw demo_lang
  show ?thesis by blast
qed

text \<open>
  C5. When the model failed to load (the global \<open>model\<close> is \<open>None\<close>), the health body
  has \<open>model_loaded: false\<close>, and the transcription handler raises the 503 for every
  upload and every language, given or defaulted, with the world as it was: before any
  validation, staging or call of the model.
\<close>

theorem model_unavailable_503:
  "map_of (health_check None) ''model_loaded'' = Some (JBool False)
   \<and> speech_to_text None h audio language w =
       (Inl (HTTPException 503 ''Model not loaded. Server starting...''), w)
   \<and> post_api_stt None h audio language_field w =
       (Inl (HTTPException 503 ''Model not loaded. Server starting...''), w)
   \<and> respond (fst (speech_to_text None h audio language w)) =
       JSON 503 [(''detail'', JStr ''Model not loaded. Server starting...'')]"
  by (simp add: health_check_def speech_to_text_def post_api_stt_def)

subsection \<open>The successful response\<close>

text \<open>
  C6. For a supported language and an allowed extension, when the file is staged and
  closed and the model answers, the handler returns status 200 and a body of exactly
  five fields: \<open>success\<close> true, \<open>text\<close>, \<open>language\<close> (the code of the request),
  \<open>language_name\<close> (the registry's name for that code) and \<open>filename\<close> (the name of the
  upload).
\<close>

theorem success_response:
  assumes ext: "file_ext = lower (snd (splitext (filename audio)))"
    and lang: "language \<in> set (keys SUPPORTED_LANGUAGES)"
    and fmt: "file_ext \<in> set allowed_formats"
    and created: "new_temp h file_ext = Inr p"
    and got: "read audio = Inr bytes"
    and written: "file_write h p bytes = None"
    and closed: "file_close h p = None"
    and transcribed: "m p language = Inr text"
  shows "\<exists>name. map_of SUPPORTED_LANGUAGES language = Some name \<and>
     fst (speech_to_text (Some m) h audio language w) =
       Inr \<lparr>status_code = 200,
            content = [(''success'', JBool True), (''text'', JStr (strip text)),
                       (''language'', JStr language), (''language_name'', JStr name),
                       (''filename'', JStr (filename audio))]\<rparr>"
proof -
  from lang obtain name where n: "map_of SUPPORTED_LANGUAGES language = Some name"
    using registry_name by blast
  from assms n have "fst (speech_to_text (Some m) h audio language w) =
       Inr \<lparr>status_code = 200,
            content = [(''success'', JBool True), (''text'', JStr (strip text)),
                       (''language'', JStr language), (''language_name'', JStr name),
                       (''filename'', JStr (filename audio))]\<rparr>"
    by (rule success_value)
  with n show ?thesis by blast
qed

theorem success_response_witness:
  "''.wav'' = lower (snd (splitext (filename demo_upload)))
   \<and> ''hi'' \<in> set (keys SUPPORTED_LANGUAGES)
   \<and> ''.wav'' \<in> set allowed_formats
   \<and> new_temp demo_host ''.wav'' = Inr ''/tmp/tmpab12cd.wav''
   \<and> read demo_upload = Inr ''RIFF''
   \<and> file_write demo_host ''/tmp/tmpab12cd.wav'' ''RIFF'' = None
   \<and> file_close demo_host ''/tmp/tmpab12cd.wav'' = None
   \<and> demo_model ''/tmp/tmpab12cd.wav'' ''hi'' = Inr ''  namaste duniya  ''
   \<and> fst (speech_to_text (Some demo_model) demo_host demo_upload ''hi'' demo_world) =
       Inr \<lparr>status_code = 200,
            content = [(''success'', JBool True), (''text'', JStr ''namaste duniya''),
                       (''language'', JStr ''hi''), (''language_name'', JStr ''Hindi''),
                       (''filename'', JStr ''clip.WAV'')]\<rparr>"
proof -
  have c: "new_temp demo_host ''.wav'' = Inr ''/tmp/tmpab12cd.wav''"
    by (simp add: demo_host_def)
  have wr: "file_write demo_host ''/tmp/tmpab12cd.wav'' ''RIFF'' = None"
    by (simp add: demo_host_def)
  have cl: "file_close demo_host ''/tmp/tmpab12cd.wav'' = None"
    by (simp add: demo_host_def)
  have t: "demo_model ''/tmp/tmpab12cd.wav'' ''hi'' = Inr ''  namaste duniya  ''"
    by (simp add: demo_model_def)
  have s: "strip ''  namaste duniya  '' = ''namaste duniya''" by code_simp
  have n: "map_of SUPPORTED_LANGUAGES ''hi'' = Some ''Hindi''" by code_simp
  have f: "filename demo_upload = ''clip.WAV''" by (simp add: demo_upload_def)
  from success_response [where m = demo_model and w = demo_world,
      OF demo_ext demo_lang demo_fmt c demo_read wr cl t]
  have "fst (speech_to_text (Some demo_model) demo_host demo_upload ''hi'' demo_world) =
       Inr \<lparr>status_code = 200,
            content = [(''success'', JBool True), (''text'', JStr ''namaste duniya''),
                       (''language'', JStr ''hi''), (''language_name'', JStr ''Hindi''),
                       (''filename'', JStr ''clip.WAV'')]\<rparr>"
    by (simp add: s n f)
  with demo_ext demo_lang demo_fmt c demo_read wr cl t show ?thesis by blast
qed

text \<open>
  C7. On that path the \<open>text\<close> field of the response is \<open>strip\<close> of the model's text, and
  \<open>strip\<close> alters nothing but the ends: the model's text is a run of whitespace, the
  field, and a run of whitespace, and the field, unless empty, neither starts nor ends
  with whitespace.
\<close>

theorem response_text_is_stripped:
  assumes ext: "file_ext = lower (snd (splitext (filename audio)))"
    and lang: "language \<in> set (keys SUPPORTED_LANGUAGES)"
    and fmt: "file_ext \<in> set allowed_formats"
    and created: "new_temp h file_ext = Inr p"
    and got: "read audio = Inr bytes"
    and written: "file_write h p bytes = None"
    and closed: "file_close h p = None"
    and transcribed: "m p language = Inr text"
  shows "\<exists>resp pre suf.
      fst (speech_to_text (Some m) h audio language w) = Inr resp
    \<and> map_of (content resp) ''text'' = Some (JStr (strip text))
    \<and> text = pre @ strip text @ suf
    \<and> list_all isspace pre \<and> list_all isspace suf
    \<and> (strip text = [] \<or> \<not> (isspace (hd (strip text)) \<or> isspace (last (strip text))))"
proof -
  from lang obtain name where n: "map_of SUPPORTED_LANGUAGES language = Some name"
    using registry_name by blast
  let ?resp = "\<lparr>status_code = 200,
          content = [(''success'', JBool True), (''text'', JStr (strip text)),
                     (''language'', JStr language), (''language_name'', JStr name),
                     (''filename'', JStr (filename audio))]\<rparr>"
  have r: "fst (speech_to_text (Some m) h audio language w) = Inr ?resp"
    using assms n by (rule success_value)
  have t: "map_of (content ?resp) ''text'' = Some (JStr (strip text))"
    by simp
  obtain pre suf where "text = pre @ strip text @ suf" "list_all isspace pre"
      "list_all isspace suf"
    using strip_sandwich [of "text"] by (auto simp: list_all_iff)
  with r t strip_ends [of "text"] show ?thesis by blast
qed

theorem response_text_is_stripped_witness:
  "''.wav'' = lower (snd (splitext (filename demo_upload)))
   \<and> ''hi'' \<in> set (keys SUPPORTED_LANGUAGES)
   \<and> ''.wav'' \<in> set allowed_formats
   \<and> new_temp demo_host ''.wav'' = Inr ''/tmp/tmpab12cd.wav''
   \<and> read demo_upload = Inr ''RIFF''
   \<and> file_write demo_host ''/tmp/tmpab12cd.wav'' ''RIFF'' = None
   \<and> file_close demo_host ''/tmp/tmpab12cd.wav'' = None
   \<and> demo_model ''/tmp/tmpab12cd.wav'' ''hi'' = Inr ''  namaste duniya  ''
   \<and> strip ''  namaste duniya  '' \<noteq> []
   \<and> (\<exists>resp pre suf.
        fst (speech_to_text (Some demo_model) demo_host demo_upload ''hi'' demo_world) = Inr resp
      \<and> map_of (content resp) ''text'' = Some (JStr ''namaste duniya'')
      \<and> ''  namaste duniya  '' = pre @ ''namaste duniya'' @ suf
      \<and> list_all isspace pre \<and> list_all isspace suf
      \<and> \<not> (isspace (hd ''namaste duniya'') \<or> isspace (last ''namaste duniya'')))"
proof -
  have c: "new_temp demo_host ''.wav'' = Inr ''/tmp/tmpab12cd.wav''"
    by (simp add: demo_host_def)
  have wr: "file_write demo_host ''/tmp/tmpab12cd.wav'' ''RIFF'' = None"
    by (simp add: demo_host_def)
  have cl: "file_close demo_host ''/tmp/tmpab12cd.wav'' = None"
    by (simp add: demo_host_def)
  have t: "demo_model ''/tmp/tmpab12cd.wav'' ''hi'' = Inr ''  namaste duniya  ''"
    by (simp add: demo_model_def)
  have s: "strip ''  namaste duniya  '' = ''namaste duniya''" by code_simp
  have ne: "strip ''  namaste duniya  '' \<noteq> []" by (simp add: s)
  from response_text_is_stripped [where m = demo_model and w = demo_world,
      OF demo_ext demo_lang demo_fmt c demo_read wr cl t]
  have "\<exists>resp pre suf.
        fst (speech_to_text (Some demo_model) demo_host demo_upload ''hi'' demo_world) = Inr resp
      \<and> map_of (content resp) ''text'' = Some (JStr ''namaste duniya'')
      \<and> ''  namaste duniya  '' = pre @ ''namaste duniya'' @ suf
      \<and> list_all isspace pre \<and> list_all isspace suf
      \<and> \<not> (isspace (hd ''namaste duniya'') \<or> isspace (last ''namaste duniya''))"
    unfolding s by simp
  with demo_ext demo_lang demo_fmt c demo_read wr cl t ne show ?thesis by blast
qed

subsection \<open>Failure of the model\<close>

text \<open>
  C8. When the file is staged and closed and the model raises an exception with message
  \<open>cause\<close>, the handler raises a 500 whose detail is \<open>Transcription failed: \<close> followed
  by \<open>cause\<close> unchanged, and the model has been called once, with the staged path and
  the language of the request.
\<close>

theorem transcription_failure_500:
  assumes ext: "file_ext = lower (snd (splitext (filename audio)))"
    and lang: "language \<in> set (keys SUPPORTED_LANGUAGES)"
    and fmt: "file_ext \<in> set allowed_formats"
    and created: "new_temp h file_ext = Inr p"
    and got: "read audio = Inr bytes"
    and written: "file_write h p bytes = None"
    and closed: "file_close h p = None"
    and failed: "m p language = Inl cause"
  shows "case speech_to_text (Some m) h audio language w of
     (r, w') \<Rightarrow>
        r = Inl (HTTPException 500 (''Transcription failed: '' @ cause))
      \<and> respond r = JSON 500 [(''detail'', JStr (''Transcription failed: '' @ cause))]
      \<and> transcriptions w' = transcriptions w @ [(p, language)]"
  using assms
  by (auto simp: handler_defs split: sum.splits option.splits if_splits prod.splits)

theorem transcription_failure_500_witness:
  "''.wav'' = lower (snd (splitext (filename demo_upload)))
   \<and> ''hi'' \<in> set (keys SUPPORTED_LANGUAGES)
   \<and> ''.wav'' \<in> set allowed_formats
   \<and> new_temp demo_host ''.wav'' = Inr ''/tmp/tmpab12cd.wav''
   \<and> read demo_upload = Inr ''RIFF''
   \<and> file_write demo_host ''/tmp/tmpab12cd.wav'' ''RIFF'' = None
   \<and> file_close demo_host ''/tmp/tmpab12cd.wav'' = None
   \<and> deaf_model ''/tmp/tmpab12cd.wav'' ''hi'' = Inl ''Failed to load audio''
   \<and> (case speech_to_text (Some deaf_model) demo_host demo_upload ''hi'' demo_world of
        (r, w') \<Rightarrow>
          r = Inl (HTTPException 500 ''Transcription failed: Failed to load audio'')
        \<and> transcriptions w' = [(''/tmp/tmpab12cd.wav'', ''hi'')])"
proof -
  have c: "new_temp demo_host ''.wav'' = Inr ''/tmp/tmpab12cd.wav''"
    by (simp add: demo_host_def)
  have wr: "file_write demo_host ''/tmp/tmpab12cd.wav'' ''RIFF'' = None"
    by (simp add: demo_host_def)
  have cl: "file_close demo_host ''/tmp/tmpab12cd.wav'' = None"
    by (simp add: demo_host_def)
  have t: "deaf_model ''/tmp/tmpab12cd.wav'' ''hi'' = Inl ''Failed to load audio''"
    by (simp add: deaf_model_def)
  have ts: "transcriptions demo_world = []"
    by (simp add: transcriptions_def demo_world_def)
  from transcription_failure_500 [where m = deaf_model and w = demo_world,
      OF demo_ext demo_lang demo_fmt c demo_read wr cl t]
  have "case speech_to_text (Some deaf_model) demo_host demo_upload ''hi'' demo_world of
        (r, w') \<Rightarrow>
          r = Inl (HTTPException 500 ''Transcription failed: Failed to load audio'')
        \<and> transcriptions w' = [(''/tmp/tmpab12cd.wav'', ''hi'')]"
    by (auto simp: ts split: prod.splits)
  with demo_ext demo_lang demo_fmt c demo_read wr cl t show ?thesis by blast
qed

subsection \<open>The default language\<close>

text \<open>
  C9. A request without the \<open>language\<close> field is handled as the same request with
  \<open>language\<close> set to \<open>hi\<close>: the default is in place before the handler runs, it is a key
  of the registry, and such a request never gets the 400 of the language validation.
\<close>

theorem absent_language_is_hindi:
  "post_api_stt model h audio None w = post_api_stt model h audio (Some ''hi'') w
   \<and> Form ''hi'' None \<in> set (keys SUPPORTED_LANGUAGES)
   \<and> (\<forall>d. fst (post_api_stt model h audio None w) \<noteq>
            Inl (HTTPException 400 (''Language '' @ d)))"
  by (auto simp: post_api_stt_def Form_def keys_def SUPPORTED_LANGUAGES_def handler_defs
       split: sum.splits option.splits if_splits prod.splits)

subsection \<open>The health probe\<close>


end
